theory Spec2Isabelle
  imports Main "HOL-Library.Word"
begin

section \<open>Strings\<close>

text \<open>
  A JavaScript string is a sequence of UTF-16 code units. String literals of the source
  are ASCII and are written through \<open>js\<close>.
\<close>

type_synonym js_string = "16 word list"

definition js :: "string \<Rightarrow> js_string" where
  "js s = map of_char s"

text \<open>
  \<open>String.prototype.trim\<close> removes WhiteSpace and LineTerminator code points from both
  ends: TAB, LF, VT, FF, CR, SPACE, NBSP, the Unicode space separators and U+FEFF. All of
  them are single code units.
\<close>

definition is_js_whitespace :: "16 word \<Rightarrow> bool" where
  "is_js_whitespace c =
     (c = 0x0009 \<or> c = 0x000A \<or> c = 0x000B \<or> c = 0x000C \<or> c = 0x000D \<or> c = 0x0020
      \<or> c = 0x00A0 \<or> c = 0x1680 \<or> (0x2000 \<le> c \<and> c \<le> 0x200A)
      \<or> c = 0x2028 \<or> c = 0x2029 \<or> c = 0x202F \<or> c = 0x205F \<or> c = 0x3000 \<or> c = 0xFEFF)"

definition trim :: "js_string \<Rightarrow> js_string" where
  "trim s = rev (dropWhile is_js_whitespace (rev (dropWhile is_js_whitespace s)))"

section \<open>Data model\<close>

text \<open>
  The interfaces of the source. Three names differ from it, since \<open>definition\<close> is a
  keyword and two records cannot share a field name: the field \<open>definition\<close> of a
  \<open>Definition\<close> is \<open>definition_text\<close>, the field \<open>word\<close> of an entry is \<open>entry_word\<close>,
  and the state slot \<open>definition\<close> is \<open>definition_state\<close>. An optional field is an
  \<open>option\<close>, with \<open>None\<close> for \<open>undefined\<close>.
\<close>

record Definition =
  definition_text :: js_string
  example :: "js_string option"

record Meaning =
  partOfSpeech :: js_string
  definitions :: "Definition list"

record DictionaryEntry =
  entry_word :: js_string
  meanings :: "Meaning list"

text \<open>
  The error body of the service. The handler reads \<open>title\<close> with \<open>||\<close>, so the field may
  be missing at run time: \<open>None\<close> is JavaScript's \<open>undefined\<close>.
\<close>

record ApiError =
  title :: "js_string option"
  message :: js_string
  resolution :: js_string

text \<open>
  The value of \<open>data: ApiResponse | ApiError\<close>, the parsed body at its declared type: a
  JSON array of entries or a JSON object. A body that parses to JSON \<open>null\<close> is not a
  value of this type; it is the result \<open>JsonResolvesNull\<close> of the parse below.
\<close>

datatype api_data = Entries "DictionaryEntry list" | ErrorBody ApiError

text \<open>The four \<open>useState\<close> slots of \<open>DictionaryApp\<close>.\<close>

record state =
  word :: js_string
  definition_state :: "api_data option"
  loading :: bool
  error :: js_string

definition initial_state :: state where
  "initial_state = \<lparr>word = [], definition_state = None, loading = False, error = []\<rparr>"

section \<open>The submission handler\<close>

text \<open>
  What the network gives back: \<open>fetch\<close> rejects, or it resolves to a response with its
  \<open>ok\<close> flag whose \<open>json()\<close> rejects, yields \<open>null\<close> or yields an array or object.
\<close>

datatype json_result = JsonRejects | JsonResolvesNull | JsonResolves api_data

datatype fetch_result = FetchRejects | FetchResolves bool json_result

text \<open>
  The effects of the handler, in the order it performs them: the three state setters it
  calls, and the request with its URL (\<open>fetch\<close> is called with no options, a GET).
\<close>

datatype action =
    SetError js_string
  | SetLoading bool
  | SetDefinition "api_data option"
  | Fetch js_string

definition api_url :: "js_string \<Rightarrow> js_string" where
  "api_url w = js ''https://api.dictionaryapi.dev/api/v2/entries/en/'' @ w"

text \<open>
  \<open>(data as ApiError).title || "Could not find a definition."\<close>: an array has no
  \<open>title\<close>, and an empty string is falsy.
\<close>

definition title_of :: "api_data \<Rightarrow> js_string option" where
  "title_of d = (case d of Entries es \<Rightarrow> None | ErrorBody e \<Rightarrow> title e)"

definition title_or_fallback :: "api_data \<Rightarrow> js_string" where
  "title_or_fallback d =
     (case title_of d of
        None \<Rightarrow> js ''Could not find a definition.''
      | Some t \<Rightarrow> if t = [] then js ''Could not find a definition.'' else t)"

text \<open>
  The \<open>try\<close> block after the request: \<open>response.json()\<close> is awaited before
  \<open>response.ok\<close> is read, and both rejections end in the \<open>catch\<close> block. For a
  \<open>null\<close> body, \<open>setDefinition(data)\<close> stores \<open>null\<close> when the response is ok, and
  reading \<open>data.title\<close> throws into the \<open>catch\<close> block when it is not.
\<close>

definition after_fetch :: "fetch_result \<Rightarrow> action list" where
  "after_fetch r =
     (case r of
        FetchRejects \<Rightarrow> [SetError (js ''An error occurred. Please check your network connection.'')]
      | FetchResolves ok JsonRejects \<Rightarrow>
          [SetError (js ''An error occurred. Please check your network connection.'')]
      | FetchResolves ok JsonResolvesNull \<Rightarrow>
          (if ok then [SetDefinition None]
           else [SetError (js ''An error occurred. Please check your network connection.'')])
      | FetchResolves ok (JsonResolves d) \<Rightarrow>
          (if ok then [SetDefinition (Some d)] else [SetError (title_or_fallback d)]))"

text \<open>
  \<open>fetchDefinition\<close> reads \<open>word\<close> from the component state; \<open>net\<close> is the network's
  answer to the URL requested. The last effect is the \<open>finally\<close> block.
\<close>

definition fetchDefinition :: "js_string \<Rightarrow> (js_string \<Rightarrow> fetch_result) \<Rightarrow> action list" where
  "fetchDefinition w net =
     (if trim w = [] then [SetError (js ''Please enter a word.'')]
      else [SetLoading True, SetDefinition None, SetError []]
           @ [Fetch (api_url w)]
           @ after_fetch (net (api_url w))
           @ [SetLoading False])"

fun apply_action :: "state \<Rightarrow> action \<Rightarrow> state" where
  "apply_action s (SetError e) = s\<lparr>error := e\<rparr>"
| "apply_action s (SetLoading b) = s\<lparr>loading := b\<rparr>"
| "apply_action s (SetDefinition d) = s\<lparr>definition_state := d\<rparr>"
| "apply_action s (Fetch u) = s"

definition run :: "state \<Rightarrow> action list \<Rightarrow> state" where
  "run s as = foldl apply_action s as"

text \<open>
  The state once the handler has completed, when nothing else writes the state while its
  request is in flight.
\<close>

definition submit :: "state \<Rightarrow> (js_string \<Rightarrow> fetch_result) \<Rightarrow> state" where
  "submit s net = run s (fetchDefinition (word s) net)"

fun is_Fetch :: "action \<Rightarrow> bool" where
  "is_Fetch (Fetch u) = True"
| "is_Fetch _ = False"

text \<open>The state at the \<open>await\<close>: the effects before the request have been applied.\<close>

definition state_at_request :: "state \<Rightarrow> (js_string \<Rightarrow> fetch_result) \<Rightarrow> state" where
  "state_at_request s net =
     run s (takeWhile (\<lambda>a. \<not> is_Fetch a) (fetchDefinition (word s) net))"

text \<open>The request or the parse throws: \<open>fetch\<close> or \<open>response.json()\<close> rejects.\<close>

fun throws :: "fetch_result \<Rightarrow> bool" where
  "throws FetchRejects = True"
| "throws (FetchResolves ok JsonRejects) = True"
| "throws (FetchResolves ok JsonResolvesNull) = False"
| "throws (FetchResolves ok (JsonResolves d)) = False"

subsection \<open>Overlapping invocations\<close>

text \<open>
  The handler is suspended at \<open>await fetch(...)\<close> and at \<open>await response.json()\<close>, and it
  writes no state between the two. So an invocation runs in two parts: the effects before
  the first \<open>await\<close>, and the effects once the response and its body have arrived. The
  return key (\<open>onSubmitEditing\<close>) invokes the handler whether or not a request is in
  flight, so other events can run between the two parts.
\<close>

definition before_await :: "js_string \<Rightarrow> action list" where
  "before_await w =
     (if trim w = [] then [SetError (js ''Please enter a word.'')]
      else [SetLoading True, SetDefinition None, SetError [], Fetch (api_url w)])"

definition after_await :: "fetch_result \<Rightarrow> action list" where
  "after_await r = after_fetch r @ [SetLoading False]"

definition requests :: "action list \<Rightarrow> js_string list" where
  "requests as = concat (map (\<lambda>a. case a of Fetch u \<Rightarrow> [u] | _ \<Rightarrow> []) as)"

text \<open>The component with the URLs of its requests in flight, oldest first.\<close>

record app =
  component :: state
  pending :: "js_string list"

text \<open>
  The events of the component: the text is edited, the handler is invoked, and the
  request at a position of the pending list is answered.
\<close>

datatype async_event = Edit js_string | Invoke | Settle nat fetch_result

fun async_step :: "app \<Rightarrow> async_event \<Rightarrow> app" where
  "async_step a (Edit t) = a\<lparr>component := (component a)\<lparr>word := t\<rparr>\<rparr>"
| "async_step a Invoke =
     \<lparr>component = run (component a) (before_await (word (component a))),
      pending = pending a @ requests (before_await (word (component a)))\<rparr>"
| "async_step a (Settle i r) =
     (if i < length (pending a)
      then \<lparr>component = run (component a) (after_await r),
            pending = take i (pending a) @ drop (Suc i) (pending a)\<rparr>
      else a)"

definition after_async :: "async_event list \<Rightarrow> app" where
  "after_async evs = foldl async_step \<lparr>component = initial_state, pending = []\<rparr> evs"

section \<open>Rendering\<close>

datatype style =
    S_container | S_innerContainer | S_title | S_input | S_button | S_buttonText
  | S_loader | S_errorText | S_resultsContainer
  | S_definitionContainer | S_partOfSpeech | S_definitionBlock | S_definitionText
  | S_exampleText

text \<open>
  The element tree. A \<open>Text\<close> holds the concatenation of its children; \<open>TextInput\<close> holds
  its value, \<open>TouchableOpacity\<close> its \<open>disabled\<close> flag, \<open>FlatList\<close> the rendered items.
  React keys are not part of the output.
\<close>

datatype element =
    SafeAreaView style "element list"
  | View style "element list"
  | Text style js_string
  | TextInput js_string
  | TouchableOpacity bool "element list"
  | ActivityIndicator
  | FlatList "element list"

text \<open>A non-negative integer as JavaScript prints it: decimal, no leading zero.\<close>

definition digit_char :: "nat \<Rightarrow> 16 word" where
  "digit_char k = of_nat (48 + k)"

fun number_to_string :: "nat \<Rightarrow> js_string" where
  "number_to_string n =
     (if n < 10 then [digit_char n]
      else number_to_string (n div 10) @ [digit_char (n mod 10)])"

declare number_to_string.simps [simp del]

text \<open>
  The body of \<open>item.definitions.map((def, index) => ...)\<close>. \<open>def.example && ...\<close> renders
  nothing for a missing example and for the empty string, both falsy.
\<close>

definition render_block :: "nat \<Rightarrow> Definition \<Rightarrow> element" where
  "render_block index d =
     View S_definitionBlock
       (Text S_definitionText (number_to_string (index + 1) @ js ''. '' @ definition_text d)
        # (case example d of
             None \<Rightarrow> []
           | Some e \<Rightarrow>
               if e = [] then []
               else [Text S_exampleText (js ''Example: '' @ [0x22] @ e @ [0x22])]))"

definition renderDefinition :: "Meaning \<Rightarrow> element" where
  "renderDefinition item =
     View S_definitionContainer
       (Text S_partOfSpeech (partOfSpeech item)
        # map (\<lambda>(index, d). render_block index d) (enumerate 0 (definitions item)))"

text \<open>
  \<open>definition[0]?.meanings\<close>: \<open>undefined\<close> for an empty array and for an object, which
  has no property \<open>0\<close>.
\<close>

definition first_meanings :: "api_data \<Rightarrow> Meaning list option" where
  "first_meanings d =
     (case d of
        Entries es \<Rightarrow> (case es of [] \<Rightarrow> None | e # rest \<Rightarrow> Some (meanings e))
      | ErrorBody b \<Rightarrow> None)"

text \<open>A \<open>FlatList\<close> renders one item per element of \<open>data\<close>, and none without data.\<close>

definition flat_list :: "Meaning list option \<Rightarrow> element" where
  "flat_list data =
     FlatList (case data of None \<Rightarrow> [] | Some ms \<Rightarrow> map renderDefinition ms)"

text \<open>
  The three conditional children: \<open>loading && ...\<close>, \<open>error && ...\<close> and
  \<open>definition && ...\<close>. \<open>false\<close>, the empty string and \<open>null\<close> are falsy and render
  nothing; an array, also an empty one, and an object are truthy.
\<close>

definition status_children :: "state \<Rightarrow> element list" where
  "status_children s =
     (if loading s then [ActivityIndicator] else [])
     @ (if error s = [] then [] else [Text S_errorText (error s)])
     @ (case definition_state s of
          None \<Rightarrow> []
        | Some d \<Rightarrow> [flat_list (first_meanings d)])"

definition DictionaryApp :: "state \<Rightarrow> element" where
  "DictionaryApp s =
     SafeAreaView S_container
       [View S_innerContainer
          ([Text S_title (js ''Dictionary''),
            TextInput (word s),
            TouchableOpacity (loading s) [Text S_buttonText (js ''Search'')]]
           @ status_children s)]"

fun is_spinner :: "element \<Rightarrow> bool" where
  "is_spinner ActivityIndicator = True"
| "is_spinner _ = False"

fun is_error_line :: "element \<Rightarrow> bool" where
  "is_error_line (Text S_errorText t) = True"
| "is_error_line _ = False"

fun is_result_list :: "element \<Rightarrow> bool" where
  "is_result_list (FlatList items) = True"
| "is_result_list _ = False"

definition shows_spinner :: "state \<Rightarrow> bool" where
  "shows_spinner s = list_ex is_spinner (status_children s)"

definition shows_error :: "state \<Rightarrow> bool" where
  "shows_error s = list_ex is_error_line (status_children s)"

definition shows_results :: "state \<Rightarrow> bool" where
  "shows_results s = list_ex is_result_list (status_children s)"

section \<open>User events\<close>

text \<open>
  \<open>onChangeText={setWord}\<close> and a submission (button press or return key) whose request
  is answered by the given result.
\<close>

datatype event = ChangeText js_string | Submit fetch_result

fun step :: "state \<Rightarrow> event \<Rightarrow> state" where
  "step s (ChangeText t) = s\<lparr>word := t\<rparr>"
| "step s (Submit r) = submit s (\<lambda>u. r)"

definition after_events :: "event list \<Rightarrow> state" where
  "after_events evs = foldl step initial_state evs"

section \<open>Reading the rendered list back\<close>

text \<open>
  The inverse direction of the rendering: from the elements of the result list to the
  part-of-speech, definition and example strings they display.
\<close>

definition is_digit :: "16 word \<Rightarrow> bool" where
  "is_digit c = (0x30 \<le> c \<and> c \<le> 0x39)"

text \<open>A definition line is the number, a full stop, a space and the text.\<close>

definition extract_definition_text :: "js_string \<Rightarrow> js_string" where
  "extract_definition_text t = drop 2 (dropWhile is_digit t)"

text \<open>An example line is the ten code units of \<open>Example: "\<close>, the text and a quote.\<close>

definition extract_example :: "js_string \<Rightarrow> js_string" where
  "extract_example t = butlast (drop 10 t)"

definition extract_block :: "element \<Rightarrow> Definition option" where
  "extract_block el =
     (case el of
        View st [Text st1 t] \<Rightarrow>
          Some \<lparr>definition_text = extract_definition_text t, example = None\<rparr>
      | View st [Text st1 t, Text st2 e] \<Rightarrow>
          Some \<lparr>definition_text = extract_definition_text t,
                example = Some (extract_example e)\<rparr>
      | _ \<Rightarrow> None)"

definition extract_meaning :: "element \<Rightarrow> Meaning option" where
  "extract_meaning el =
     (case el of
        View st (Text st1 p # blocks) \<Rightarrow>
          map_option (\<lambda>ds. \<lparr>partOfSpeech = p, definitions = ds\<rparr>)
            (those (map extract_block blocks))
      | _ \<Rightarrow> None)"

definition extract_list :: "element \<Rightarrow> Meaning list option" where
  "extract_list el =
     (case el of FlatList items \<Rightarrow> those (map extract_meaning items) | _ \<Rightarrow> None)"

text \<open>The number of definition blocks in a rendered list.\<close>

definition rendered_definition_count :: "element \<Rightarrow> nat" where
  "rendered_definition_count el =
     (case el of
        FlatList items \<Rightarrow>
          sum_list
            (map (\<lambda>it. case it of View st (h # blocks) \<Rightarrow> length blocks | _ \<Rightarrow> 0) items)
      | _ \<Rightarrow> 0)"

text \<open>The meanings of every entry of a response, in order: the fields of the input JSON.\<close>

definition all_meanings :: "DictionaryEntry list \<Rightarrow> Meaning list" where
  "all_meanings es = concat (map meanings es)"

definition definition_count :: "Meaning list \<Rightarrow> nat" where
  "definition_count ms = sum_list (map (\<lambda>m. length (definitions m)) ms)"

section \<open>URL encoding\<close>

text \<open>
  The URL-encoded form of a word, which the handler does not compute: the UTF-8 bytes of
  every character outside the unreserved set of \<open>encodeURIComponent\<close> (letters, digits
  and \<open>- _ . ! ~ * ' ( )\<close>) are written as \<open>%XX\<close>. An unpaired surrogate is encoded as
  U+FFFD.
\<close>

definition is_unreserved :: "nat \<Rightarrow> bool" where
  "is_unreserved c =
     ((0x41 \<le> c \<and> c \<le> 0x5A) \<or> (0x61 \<le> c \<and> c \<le> 0x7A) \<or> (0x30 \<le> c \<and> c \<le> 0x39)
      \<or> c = 0x2D \<or> c = 0x5F \<or> c = 0x2E \<or> c = 0x21 \<or> c = 0x7E \<or> c = 0x2A
      \<or> c = 0x27 \<or> c = 0x28 \<or> c = 0x29)"

definition hex_digit :: "nat \<Rightarrow> 16 word" where
  "hex_digit k = (if k < 10 then of_nat (48 + k) else of_nat (55 + k))"

definition percent :: "nat \<Rightarrow> js_string" where
  "percent b = [0x25, hex_digit (b div 16), hex_digit (b mod 16)]"

definition utf8 :: "nat \<Rightarrow> nat list" where
  "utf8 cp =
     (if cp < 0x80 then [cp]
      else if cp < 0x800 then [0xC0 + cp div 64, 0x80 + cp mod 64]
      else if cp < 0x10000 then
        [0xE0 + cp div 4096, 0x80 + cp div 64 mod 64, 0x80 + cp mod 64]
      else [0xF0 + cp div 262144, 0x80 + cp div 4096 mod 64, 0x80 + cp div 64 mod 64,
            0x80 + cp mod 64])"

definition is_high_surrogate :: "16 word \<Rightarrow> bool" where
  "is_high_surrogate c = (0xD800 \<le> c \<and> c \<le> 0xDBFF)"

definition is_low_surrogate :: "16 word \<Rightarrow> bool" where
  "is_low_surrogate c = (0xDC00 \<le> c \<and> c \<le> 0xDFFF)"

definition lone_code_point :: "16 word \<Rightarrow> nat" where
  "lone_code_point c =
     (if is_high_surrogate c \<or> is_low_surrogate c then 0xFFFD else unat c)"

fun code_points :: "js_string \<Rightarrow> nat list" where
  "code_points [] = []"
| "code_points [c] = [lone_code_point c]"
| "code_points (c # d # cs) =
     (if is_high_surrogate c \<and> is_low_surrogate d
      then (0x10000 + (unat c - 0xD800) * 0x400 + (unat d - 0xDC00)) # code_points cs
      else lone_code_point c # code_points (d # cs))"

definition urlencoded :: "js_string \<Rightarrow> js_string" where
  "urlencoded w =
     concat (map (\<lambda>cp. if is_unreserved cp then [of_nat cp] else concat (map percent (utf8 cp)))
               (code_points w))"

text \<open>
  The response of the spec's scenario: one entry for \<open>hello\<close>, one meaning, one definition
  with an example.
\<close>

definition hello_response :: "DictionaryEntry list" where
  "hello_response =
     [\<lparr>entry_word = js ''hello'',
       meanings =
         [\<lparr>partOfSpeech = js ''noun'',
           definitions =
             [\<lparr>definition_text = js ''a greeting'',
               example = Some (js ''hello there'')\<rparr>]\<rparr>]\<rparr>]"

text \<open>A response with two homographs.\<close>

definition bat_response :: "DictionaryEntry list" where
  "bat_response =
     [\<lparr>entry_word = js ''bat'',
       meanings =
         [\<lparr>partOfSpeech = js ''noun'',
           definitions = [\<lparr>definition_text = js ''a club'', example = None\<rparr>]\<rparr>]\<rparr>,
      \<lparr>entry_word = js ''bat'',
       meanings =
         [\<lparr>partOfSpeech = js ''noun'',
           definitions = [\<lparr>definition_text = js ''a flying mammal'', example = None\<rparr>]\<rparr>]\<rparr>]"

section \<open>Properties of the handler\<close>

lemmas handler_defs = submit_def fetchDefinition_def after_fetch_def run_def

text \<open>The trimmed text is empty exactly for the empty and the whitespace-only strings.\<close>

lemma trim_eq_Nil_iff: "trim w = [] \<longleftrightarrow> (\<forall>c\<in>set w. is_js_whitespace c)"
proof
  assume "trim w = []"
  then have all: "\<forall>c\<in>set (dropWhile is_js_whitespace w). is_js_whitespace c"
    by (simp add: trim_def dropWhile_eq_Nil_conv)
  have "dropWhile is_js_whitespace w = []"
  proof (rule ccontr)
    assume ne: "dropWhile is_js_whitespace w \<noteq> []"
    then have "\<not> is_js_whitespace (hd (dropWhile is_js_whitespace w))"
      by (rule hd_dropWhile)
    moreover from ne have "hd (dropWhile is_js_whitespace w) \<in> set (dropWhile is_js_whitespace w)"
      by (rule hd_in_set)
    ultimately show False
      using all by blast
  qed
  then show "\<forall>c\<in>set w. is_js_whitespace c"
    by (simp add: dropWhile_eq_Nil_conv)
next
  assume "\<forall>c\<in>set w. is_js_whitespace c"
  then have "dropWhile is_js_whitespace w = []"
    by (simp add: dropWhile_eq_Nil_conv)
  then show "trim w = []"
    by (simp add: trim_def del: dropWhile_eq_Nil_conv)
qed


lemma after_fetch_no_request: "filter is_Fetch (after_fetch r) = []"
  by (simp add: after_fetch_def split: fetch_result.split json_result.split)

text \<open>
  The handler is its two parts in sequence, and \<open>submit\<close> is an invocation that runs
  alone: it is invoked with no request in flight and its request is answered before any
  other event.
\<close>

lemma fetchDefinition_split:
  "fetchDefinition w net =
     (if trim w = [] then before_await w else before_await w @ after_await (net (api_url w)))"
  by (simp add: fetchDefinition_def before_await_def after_await_def)

lemma Invoke_blank:
  "trim (word s) = [] \<Longrightarrow>
     async_step \<lparr>component = s, pending = p\<rparr> Invoke = \<lparr>component = submit s net, pending = p\<rparr>"
  by (simp add: submit_def fetchDefinition_split before_await_def requests_def)

lemma submit_is_isolated_run:
  "trim (word s) \<noteq> [] \<Longrightarrow>
     async_step (async_step \<lparr>component = s, pending = []\<rparr> Invoke) (Settle 0 r)
       = \<lparr>component = submit s (\<lambda>u. r), pending = []\<rparr>"
  by (simp add: submit_def fetchDefinition_split before_await_def requests_def run_def)

text \<open>
  C1. When the trimmed query is empty (the query is empty or consists of whitespace only,
  \<open>trim_eq_Nil_iff\<close>), the handler performs the single effect of setting the error to
  \<open>Please enter a word.\<close>: the error message after the handler is that string, no request
  is issued, and the loading flag is never set to true.
\<close>

theorem fetchDefinition_rejects_blank_query:
  assumes "trim (word s) = []"
  shows "fetchDefinition (word s) net = [SetError (js ''Please enter a word.'')]
    \<and> error (submit s net) = js ''Please enter a word.''
    \<and> \<not> list_ex is_Fetch (fetchDefinition (word s) net)
    \<and> SetLoading True \<notin> set (fetchDefinition (word s) net)"
  using assms by (simp add: handler_defs)

theorem fetchDefinition_rejects_blank_query_witness:
  "trim (word (initial_state\<lparr>word := [0x20, 0x09, 0xA0]\<rparr>)) = []
   \<and> error (submit (initial_state\<lparr>word := [0x20, 0x09, 0xA0]\<rparr>) (\<lambda>u. FetchRejects))
       = js ''Please enter a word.''
   \<and> \<not> list_ex is_Fetch
         (fetchDefinition (word (initial_state\<lparr>word := [0x20, 0x09, 0xA0]\<rparr>))
            (\<lambda>u. FetchRejects))"
proof -
  have blank: "trim (word (initial_state\<lparr>word := [0x20, 0x09, 0xA0]\<rparr>)) = []"
    by (simp add: trim_def is_js_whitespace_def)
  from fetchDefinition_rejects_blank_query [OF blank, of "\<lambda>u. FetchRejects"] blank
  show ?thesis by simp
qed

text \<open>
  C2. For every invocation that passes validation, whatever the network answers (success,
  an error reported by the service, a rejected request or a rejected parse): the handler
  first sets loading to true, clears the result and the error and then issues the request,
  so that at the request the loading flag is true and only the spinner is shown; its last
  effect is to set loading to false, so that after the handler the loading flag is false
  and no spinner is shown.
\<close>

theorem fetchDefinition_loading_flag:
  assumes "trim (word s) \<noteq> []"
  shows "take 4 (fetchDefinition (word s) net)
           = [SetLoading True, SetDefinition None, SetError [], Fetch (api_url (word s))]
    \<and> loading (state_at_request s net)
    \<and> status_children (state_at_request s net) = [ActivityIndicator]
    \<and> last (fetchDefinition (word s) net) = SetLoading False
    \<and> \<not> loading (submit s net)
    \<and> \<not> shows_spinner (submit s net)"
  using assms
  by (simp add: handler_defs state_at_request_def shows_spinner_def status_children_def
      flat_list_def split: fetch_result.split json_result.split option.split)

theorem fetchDefinition_loading_flag_witness:
  "trim (word (initial_state\<lparr>word := js ''hello''\<rparr>)) \<noteq> []
   \<and> loading (state_at_request (initial_state\<lparr>word := js ''hello''\<rparr>)
        (\<lambda>u. FetchResolves True (JsonResolves (Entries hello_response))))
   \<and> \<not> loading (submit (initial_state\<lparr>word := js ''hello''\<rparr>)
        (\<lambda>u. FetchResolves True (JsonResolves (Entries hello_response))))"
proof -
  have valid: "trim (word (initial_state\<lparr>word := js ''hello''\<rparr>)) \<noteq> []"
    by (simp add: trim_def is_js_whitespace_def js_def)
  from fetchDefinition_loading_flag [OF valid] valid
  show ?thesis by simp
qed

text \<open>
  An error body whose \<open>title\<close> is present but empty: the error message is the fallback and
  not the title.
\<close>

theorem empty_title_yields_fallback:
  "title \<lparr>title = Some [], message = js ''m'', resolution = js ''r''\<rparr> = Some []
   \<and> error (submit (initial_state\<lparr>word := js ''zzz''\<rparr>)
        (\<lambda>u. FetchResolves False
           (JsonResolves (ErrorBody \<lparr>title = Some [], message = js ''m'', resolution = js ''r''\<rparr>))))
       = js ''Could not find a definition.''
   \<and> js ''Could not find a definition.'' \<noteq> []"
  by (simp add: handler_defs initial_state_def trim_def is_js_whitespace_def js_def
      title_or_fallback_def title_of_def)

text \<open>
  C3 (amended). For every response with a non-2xx status whose body parses to a JSON
  object or array (a \<open>title\<close>, when present, being a string), the error message is the
  body's \<open>title\<close> when that field is present and non-empty, and the fixed string
  \<open>Could not find a definition.\<close> when it is absent or empty. When the body of a non-2xx response parses to \<open>null\<close> or does not parse, the
  handler takes the exception path and the error message is the fixed network-error
  string. The witness is the body \<open>{"title": "No Definitions Found"}\<close>.
\<close>

theorem fetchDefinition_api_error:
  assumes "trim (word s) \<noteq> []"
  shows "(net (api_url (word s)) = FetchResolves False (JsonResolves d) \<longrightarrow>
            (\<forall>t. title_of d = Some t \<and> t \<noteq> [] \<longrightarrow> error (submit s net) = t)
            \<and> (title_of d = None \<or> title_of d = Some []
                  \<longrightarrow> error (submit s net) = js ''Could not find a definition.''))
    \<and> (net (api_url (word s)) = FetchResolves False JsonResolvesNull
          \<or> net (api_url (word s)) = FetchResolves False JsonRejects
        \<longrightarrow> error (submit s net)
              = js ''An error occurred. Please check your network connection.'')"
proof -
  have body: "error (submit s net) = title_or_fallback d"
    if "net (api_url (word s)) = FetchResolves False (JsonResolves d)"
    using assms that by (simp add: handler_defs)
  have thrown: "error (submit s net)
      = js ''An error occurred. Please check your network connection.''"
    if "net (api_url (word s)) = FetchResolves False JsonResolvesNull
        \<or> net (api_url (word s)) = FetchResolves False JsonRejects"
    using that
  proof
    assume "net (api_url (word s)) = FetchResolves False JsonResolvesNull"
    with assms show ?thesis by (simp add: handler_defs)
  next
    assume "net (api_url (word s)) = FetchResolves False JsonRejects"
    with assms show ?thesis by (simp add: handler_defs)
  qed
  have titled: "title_or_fallback d = t" if "title_of d = Some t" and "t \<noteq> []" for t
    using that by (simp add: title_or_fallback_def)
  have untitled: "title_or_fallback d = js ''Could not find a definition.''"
    if "title_of d = None \<or> title_of d = Some []"
    using that by (auto simp add: title_or_fallback_def)
  from body thrown titled untitled show ?thesis
    by metis
qed

theorem fetchDefinition_api_error_witness:
  "trim (word (initial_state\<lparr>word := js ''zzz''\<rparr>)) \<noteq> []
   \<and> title_of (ErrorBody \<lparr>title = Some (js ''No Definitions Found''), message = js ''m'',
                 resolution = js ''r''\<rparr>) = Some (js ''No Definitions Found'')
   \<and> js ''No Definitions Found'' \<noteq> []
   \<and> error (submit (initial_state\<lparr>word := js ''zzz''\<rparr>)
        (\<lambda>u. FetchResolves False
           (JsonResolves (ErrorBody \<lparr>title = Some (js ''No Definitions Found''),
              message = js ''m'', resolution = js ''r''\<rparr>))))
       = js ''No Definitions Found''"
proof -
  let ?body = "ErrorBody \<lparr>title = Some (js ''No Definitions Found''), message = js ''m'',
                 resolution = js ''r''\<rparr>"
  let ?net = "\<lambda>u::js_string. FetchResolves False (JsonResolves ?body)"
  let ?s = "initial_state\<lparr>word := js ''zzz''\<rparr>"
  have valid: "trim (word ?s) \<noteq> []"
    by (simp add: trim_def is_js_whitespace_def js_def)
  have resp: "?net (api_url (word ?s)) = FetchResolves False (JsonResolves ?body)"
    by simp
  have t: "title_of ?body = Some (js ''No Definitions Found'')"
    by (simp add: title_of_def)
  have ne: "js ''No Definitions Found'' \<noteq> []"
    by (simp add: js_def)
  note api = fetchDefinition_api_error [OF valid, of ?net ?body]
  from api have "?net (api_url (word ?s)) = FetchResolves False (JsonResolves ?body) \<longrightarrow>
      (\<forall>t. title_of ?body = Some t \<and> t \<noteq> [] \<longrightarrow> error (submit ?s ?net) = t)
      \<and> (title_of ?body = None \<or> title_of ?body = Some []
            \<longrightarrow> error (submit ?s ?net) = js ''Could not find a definition.'')"
    by (rule conjunct1)
  from this resp
  have "(\<forall>t. title_of ?body = Some t \<and> t \<noteq> [] \<longrightarrow> error (submit ?s ?net) = t)
      \<and> (title_of ?body = None \<or> title_of ?body = Some []
            \<longrightarrow> error (submit ?s ?net) = js ''Could not find a definition.'')"
    by (rule mp)
  then have "\<forall>t. title_of ?body = Some t \<and> t \<noteq> [] \<longrightarrow> error (submit ?s ?net) = t"
    by (rule conjunct1)
  then have "title_of ?body = Some (js ''No Definitions Found'') \<and> js ''No Definitions Found'' \<noteq> []
      \<longrightarrow> error (submit ?s ?net) = js ''No Definitions Found''"
    by (rule spec)
  from this conjI [OF t ne] have "error (submit ?s ?net) = js ''No Definitions Found''"
    by (rule mp)
  with valid t ne show ?thesis
    by (intro conjI)
qed

text \<open>
  Two overlapping invocations for \<open>hello\<close>: the second one's request succeeds, then the
  first one's request is rejected. The error message is the network-error string and the
  result is the stored response, not null.
\<close>

theorem overlapping_lookup_leaves_result:
  "throws FetchRejects
   \<and> error (component (after_async
        [Edit (js ''hello''), Invoke, Invoke,
         Settle 1 (FetchResolves True (JsonResolves (Entries hello_response))),
         Settle 0 FetchRejects]))
       = js ''An error occurred. Please check your network connection.''
   \<and> definition_state (component (after_async
        [Edit (js ''hello''), Invoke, Invoke,
         Settle 1 (FetchResolves True (JsonResolves (Entries hello_response))),
         Settle 0 FetchRejects]))
       = Some (Entries hello_response)
   \<and> pending (after_async
        [Edit (js ''hello''), Invoke, Invoke,
         Settle 1 (FetchResolves True (JsonResolves (Entries hello_response))),
         Settle 0 FetchRejects]) = []"
  by (simp add: after_async_def initial_state_def before_await_def after_await_def
      after_fetch_def requests_def run_def trim_def is_js_whitespace_def js_def)

text \<open>
  C4 (amended). For every invocation in which \<open>fetch\<close> or \<open>response.json()\<close> rejects,
  whatever the cause and whatever the state when the rejection arrives, the \<open>catch\<close> and
  \<open>finally\<close> blocks set the error message to the one fixed string
  \<open>An error occurred. Please check your network connection.\<close>, set the loading flag to
  false and leave the result as it is. The invocation cleared the result before its
  request, so when it runs alone the result is null at that point.
\<close>

theorem fetchDefinition_exception_path:
  assumes "throws r"
  shows "error (run s' (after_await r))
           = js ''An error occurred. Please check your network connection.''
    \<and> \<not> loading (run s' (after_await r))
    \<and> definition_state (run s' (after_await r)) = definition_state s'
    \<and> (trim (word s) \<noteq> [] \<and> net (api_url (word s)) = r \<longrightarrow>
          definition_state (state_at_request s net) = None
          \<and> error (submit s net)
              = js ''An error occurred. Please check your network connection.''
          \<and> definition_state (submit s net) = None
          \<and> \<not> loading (submit s net))"
  using assms
  by (cases r rule: throws.cases)
     (auto simp add: handler_defs after_await_def state_at_request_def)

theorem fetchDefinition_exception_path_witness:
  "throws (FetchResolves True JsonRejects)
   \<and> error (run \<lparr>word = js ''cat'', definition_state = Some (Entries hello_response),
                  loading = True, error = []\<rparr> (after_await (FetchResolves True JsonRejects)))
       = js ''An error occurred. Please check your network connection.''
   \<and> definition_state
        (run \<lparr>word = js ''cat'', definition_state = Some (Entries hello_response),
              loading = True, error = []\<rparr> (after_await (FetchResolves True JsonRejects)))
       = Some (Entries hello_response)
   \<and> trim (word \<lparr>word = js ''cat'', definition_state = Some (Entries hello_response),
                  loading = False, error = []\<rparr>) \<noteq> []
   \<and> definition_state
        (submit \<lparr>word = js ''cat'', definition_state = Some (Entries hello_response),
                 loading = False, error = []\<rparr> (\<lambda>u. FetchResolves True JsonRejects)) = None"
proof -
  have thrown: "throws (FetchResolves True JsonRejects)"
    by simp
  have valid: "trim (word \<lparr>word = js ''cat'', definition_state = Some (Entries hello_response),
                loading = False, error = []\<rparr>) \<noteq> []"
    by (simp add: trim_def is_js_whitespace_def js_def)
  have resp: "(\<lambda>u. FetchResolves True JsonRejects)
      (api_url (word \<lparr>word = js ''cat'', definition_state = Some (Entries hello_response),
                loading = False, error = []\<rparr>)) = FetchResolves True JsonRejects"
    by simp
  from fetchDefinition_exception_path [OF thrown,
      of "\<lparr>word = js ''cat'', definition_state = Some (Entries hello_response),
              loading = True, error = []\<rparr>"
         "\<lparr>word = js ''cat'', definition_state = Some (Entries hello_response),
              loading = False, error = []\<rparr>"
         "\<lambda>u. FetchResolves True JsonRejects"]
    thrown valid resp
  show ?thesis by simp
qed

text \<open>
  The query \<open>a b\<close>: the URL requested ends in \<open>a b\<close>, the URL-encoded word is \<open>a%20b\<close>.
\<close>

theorem fetch_url_not_encoded:
  "filter is_Fetch (fetchDefinition (js ''a b'') (\<lambda>u. FetchRejects))
     = [Fetch (js ''https://api.dictionaryapi.dev/api/v2/entries/en/a b'')]
   \<and> js ''https://api.dictionaryapi.dev/api/v2/entries/en/'' @ urlencoded (js ''a b'')
     = js ''https://api.dictionaryapi.dev/api/v2/entries/en/a%20b''
   \<and> js ''https://api.dictionaryapi.dev/api/v2/entries/en/a b''
     \<noteq> js ''https://api.dictionaryapi.dev/api/v2/entries/en/'' @ urlencoded (js ''a b'')"
  by (simp add: fetchDefinition_def after_fetch_def api_url_def trim_def is_js_whitespace_def
      js_def urlencoded_def is_unreserved_def percent_def utf8_def hex_digit_def
      lone_code_point_def is_high_surrogate_def is_low_surrogate_def)

text \<open>
  C6 (amended). For every query that is non-empty after trimming, the handler issues
  exactly one request (\<open>fetch\<close> with no options, a GET), whose URL is
  \<open>https://api.dictionaryapi.dev/api/v2/entries/en/\<close> followed by the query text as it
  is: not trimmed and not URL-encoded.
\<close>

theorem fetchDefinition_requests_raw_url:
  assumes "trim w \<noteq> []"
  shows "filter is_Fetch (fetchDefinition w net)
    = [Fetch (js ''https://api.dictionaryapi.dev/api/v2/entries/en/'' @ w)]"
  using assms by (simp add: fetchDefinition_def after_fetch_no_request api_url_def)

theorem fetchDefinition_requests_raw_url_witness:
  "trim (js '' hi there '') \<noteq> []
   \<and> filter is_Fetch (fetchDefinition (js '' hi there '') (\<lambda>u. FetchRejects))
     = [Fetch (js ''https://api.dictionaryapi.dev/api/v2/entries/en/ hi there '')]"
proof -
  have valid: "trim (js '' hi there '') \<noteq> []"
    by (simp add: trim_def is_js_whitespace_def js_def)
  from fetchDefinition_requests_raw_url [OF valid, of "\<lambda>u. FetchRejects"] valid
  show ?thesis by (simp add: js_def)
qed

text \<open>
  C9. When the trimmed query is empty, the handler writes the error message and nothing
  else: the query text, the stored result and the loading flag keep their values, and a
  result stored before is rendered together with the validation error.
\<close>

theorem fetchDefinition_blank_query_frame:
  assumes "trim (word s) = []"
  shows "submit s net = s\<lparr>error := js ''Please enter a word.''\<rparr>
    \<and> word (submit s net) = word s
    \<and> definition_state (submit s net) = definition_state s
    \<and> loading (submit s net) = loading s
    \<and> (definition_state s \<noteq> None \<longrightarrow> shows_error (submit s net) \<and> shows_results (submit s net))"
  using assms
  by (auto simp add: handler_defs shows_error_def shows_results_def status_children_def js_def
      flat_list_def)

theorem fetchDefinition_blank_query_frame_witness:
  "trim (word \<lparr>word = js '' '', definition_state = Some (Entries hello_response),
                loading = False, error = []\<rparr>) = []
   \<and> submit \<lparr>word = js '' '', definition_state = Some (Entries hello_response),
              loading = False, error = []\<rparr> (\<lambda>u. FetchRejects)
       = \<lparr>word = js '' '', definition_state = Some (Entries hello_response),
          loading = False, error = js ''Please enter a word.''\<rparr>
   \<and> shows_error (submit \<lparr>word = js '' '', definition_state = Some (Entries hello_response),
              loading = False, error = []\<rparr> (\<lambda>u. FetchRejects))
   \<and> shows_results (submit \<lparr>word = js '' '', definition_state = Some (Entries hello_response),
              loading = False, error = []\<rparr> (\<lambda>u. FetchRejects))"
proof -
  have blank: "trim (word \<lparr>word = js '' '', definition_state = Some (Entries hello_response),
                loading = False, error = []\<rparr>) = []"
    by (simp add: trim_def is_js_whitespace_def js_def)
  have stored: "definition_state \<lparr>word = js '' '', definition_state = Some (Entries hello_response),
                loading = False, error = []\<rparr> \<noteq> None"
    by simp
  note frame = fetchDefinition_blank_query_frame [OF blank, of "\<lambda>u. FetchRejects"]
  from frame have written: "submit \<lparr>word = js '' '', definition_state = Some (Entries hello_response),
              loading = False, error = []\<rparr> (\<lambda>u. FetchRejects)
       = \<lparr>word = js '' '', definition_state = Some (Entries hello_response),
          loading = False, error = js ''Please enter a word.''\<rparr>"
    by simp
  from frame stored have both: "shows_error (submit \<lparr>word = js '' '',
        definition_state = Some (Entries hello_response), loading = False, error = []\<rparr>
        (\<lambda>u. FetchRejects))
     \<and> shows_results (submit \<lparr>word = js '' '',
        definition_state = Some (Entries hello_response), loading = False, error = []\<rparr>
        (\<lambda>u. FetchRejects))"
    by blast
  from blank written both show ?thesis
    by blast
qed

section \<open>Properties of the rendering\<close>




lemma digit_char_is_digit: "k < 10 \<Longrightarrow> is_digit (digit_char k)"
proof -
  assume "k < 10"
  then have "unat (of_nat (48 + k) :: 16 word) = 48 + k"
    by (simp add: unat_of_nat del: of_nat_add)
  then show ?thesis
    using \<open>k < 10\<close> by (simp add: is_digit_def digit_char_def word_le_nat_alt del: of_nat_add)
qed

lemma number_to_string_digits: "c \<in> set (number_to_string n) \<Longrightarrow> is_digit c"
proof (induction n rule: number_to_string.induct)
  case (1 n)
  show ?case
  proof (cases "n < 10")
    case True
    with "1.prems" show ?thesis
      by (simp add: number_to_string.simps [of n] digit_char_is_digit)
  next
    case False
    with "1.prems" have "c \<in> set (number_to_string (n div 10)) \<or> c = digit_char (n mod 10)"
      by (auto simp add: number_to_string.simps [of n])
    then show ?thesis
      using "1.IH" False by (auto intro: digit_char_is_digit)
  qed
qed

lemma dropWhile_digits:
  "dropWhile is_digit (number_to_string n @ js ''. '' @ t) = js ''. '' @ t"
proof -
  have "\<not> is_digit (hd (js ''. '' @ t))"
    by (simp add: js_def is_digit_def)
  moreover have "js ''. '' @ t \<noteq> []"
    by (simp add: js_def)
  ultimately have "dropWhile is_digit (js ''. '' @ t) = js ''. '' @ t"
    by (cases "js ''. '' @ t") simp_all
  then show ?thesis
    by (simp add: dropWhile_append3 number_to_string_digits dropWhile_append)
qed

lemma extract_definition_text_numbered:
  "extract_definition_text (number_to_string n @ js ''. '' @ t) = t"
  unfolding extract_definition_text_def dropWhile_digits by (simp add: js_def)

lemma extract_example_quoted:
  "extract_example (js ''Example: '' @ 0x22 # e @ [0x22]) = e"
  by (simp add: extract_example_def js_def butlast_append)

lemma extract_block_render_block:
  "example d \<noteq> Some [] \<Longrightarrow> extract_block (render_block i d) = Some d"
  for d :: Definition
  by (cases "example d")
     (simp_all add: extract_block_def render_block_def extract_definition_text_numbered
        extract_example_quoted)

lemma those_map_Some:
  "(\<And>x. x \<in> set xs \<Longrightarrow> f x = Some (g x)) \<Longrightarrow> those (map f xs) = Some (map g xs)"
  by (induction xs) simp_all

lemma extract_meaning_renderDefinition:
  fixes m :: Meaning
  assumes "\<And>d. d \<in> set (definitions m) \<Longrightarrow> example d \<noteq> Some []"
  shows "extract_meaning (renderDefinition m) = Some m"
proof -
  have "those (map extract_block
          (map (\<lambda>(index, d). render_block index d) (enumerate 0 (definitions m))))
        = Some (map snd (enumerate 0 (definitions m)))"
    unfolding map_map
    by (rule those_map_Some)
       (auto simp: in_set_enumerate_eq intro!: extract_block_render_block assms)
  then show ?thesis
    by (simp add: extract_meaning_def renderDefinition_def)
qed

lemma extract_list_flat_list:
  assumes "\<And>m d. m \<in> set ms \<Longrightarrow> d \<in> set (definitions m) \<Longrightarrow> example d \<noteq> Some []"
  shows "extract_list (FlatList (map renderDefinition ms)) = Some ms"
proof -
  have "those (map extract_meaning (map renderDefinition ms)) = Some (map (\<lambda>m. m) ms)"
    unfolding map_map
    by (rule those_map_Some) (simp add: extract_meaning_renderDefinition assms)
  then show ?thesis
    by (simp add: extract_list_def)
qed

lemma rendered_definition_count_flat_list:
  "rendered_definition_count (FlatList (map renderDefinition ms)) = definition_count ms"
  by (simp add: rendered_definition_count_def definition_count_def renderDefinition_def
      comp_def)

lemma flat_list_first_meanings:
  "flat_list (first_meanings (Entries es))
     = FlatList (map renderDefinition (all_meanings (take 1 es)))"
  by (cases es) (simp_all add: flat_list_def first_meanings_def all_meanings_def)

lemma map_enumerate_nth:
  "map (\<lambda>(i, x). f i x) (enumerate 0 xs) = map (\<lambda>i. f i (xs ! i)) [0..<length xs]"
  by (rule nth_equalityI) (simp_all add: nth_enumerate_eq)

text \<open>
  A definition whose \<open>example\<close> is present but empty is rendered without an example line.
\<close>

theorem empty_example_not_rendered:
  "example \<lparr>definition_text = js ''a greeting'', example = Some []\<rparr> \<noteq> None
   \<and> render_block 0 \<lparr>definition_text = js ''a greeting'', example = Some []\<rparr>
       = View S_definitionBlock [Text S_definitionText (js ''1. a greeting'')]"
  by (simp add: render_block_def number_to_string.simps digit_char_def js_def)

text \<open>
  C5 (amended). For every success state the result list is the rendering of the meanings of
  the first entry, whatever entries follow it; each meaning is rendered as its
  part-of-speech header followed by one block for each of its definitions, in order, the
  block of the definition at index \<open>i\<close> carrying the number \<open>i + 1\<close>; a block is the line
  \<open>number. text\<close>, followed by the line \<open>Example: "..."\<close> exactly when the definition
  carries a non-empty example. The spec's scenario (query \<open>hello\<close>, one entry, one meaning
  \<open>noun\<close>, one definition \<open>a greeting\<close> with example \<open>hello there\<close>) renders a \<open>noun\<close>
  section, the line \<open>1. a greeting\<close> and the line \<open>Example: "hello there"\<close>.
\<close>

theorem result_list_shows_first_entry:
  "(definition_state s = Some (Entries (e # es)) \<longrightarrow>
      filter is_result_list (status_children s) = [FlatList (map renderDefinition (meanings e))])
   \<and> renderDefinition m
       = View S_definitionContainer
           (Text S_partOfSpeech (partOfSpeech m)
            # map (\<lambda>i. render_block i (definitions m ! i)) [0..<length (definitions m)])
   \<and> (\<forall>x. example d = Some x \<and> x \<noteq> [] \<longrightarrow>
        render_block i d
          = View S_definitionBlock
              [Text S_definitionText (number_to_string (i + 1) @ js ''. '' @ definition_text d),
               Text S_exampleText (js ''Example: '' @ [0x22] @ x @ [0x22])])
   \<and> (example d = None \<or> example d = Some [] \<longrightarrow>
        render_block i d
          = View S_definitionBlock
              [Text S_definitionText (number_to_string (i + 1) @ js ''. '' @ definition_text d)])
   \<and> status_children
        (after_events
           [ChangeText (js ''hello''),
            Submit (FetchResolves True (JsonResolves (Entries hello_response)))])
       = [FlatList
            [View S_definitionContainer
               [Text S_partOfSpeech (js ''noun''),
                View S_definitionBlock
                  [Text S_definitionText (js ''1. a greeting''),
                   Text S_exampleText (js ''Example: '' @ [0x22] @ js ''hello there'' @ [0x22])]]]]"
proof -
  have first: "definition_state s = Some (Entries (e # es)) \<longrightarrow>
      filter is_result_list (status_children s) = [FlatList (map renderDefinition (meanings e))]"
    by (simp add: status_children_def flat_list_def first_meanings_def)
  have numbered: "renderDefinition m
       = View S_definitionContainer
           (Text S_partOfSpeech (partOfSpeech m)
            # map (\<lambda>i. render_block i (definitions m ! i)) [0..<length (definitions m)])"
    by (simp add: renderDefinition_def map_enumerate_nth)
  have with_example: "\<forall>x. example d = Some x \<and> x \<noteq> [] \<longrightarrow>
        render_block i d
          = View S_definitionBlock
              [Text S_definitionText (number_to_string (i + 1) @ js ''. '' @ definition_text d),
               Text S_exampleText (js ''Example: '' @ [0x22] @ x @ [0x22])]"
    by (simp add: render_block_def)
  have without_example: "example d = None \<or> example d = Some [] \<longrightarrow>
        render_block i d
          = View S_definitionBlock
              [Text S_definitionText (number_to_string (i + 1) @ js ''. '' @ definition_text d)]"
    by (auto simp add: render_block_def)
  have scenario: "status_children
        (after_events
           [ChangeText (js ''hello''),
            Submit (FetchResolves True (JsonResolves (Entries hello_response)))])
       = [FlatList
            [View S_definitionContainer
               [Text S_partOfSpeech (js ''noun''),
                View S_definitionBlock
                  [Text S_definitionText (js ''1. a greeting''),
                   Text S_exampleText (js ''Example: '' @ [0x22] @ js ''hello there'' @ [0x22])]]]]"
    by (simp add: after_events_def initial_state_def handler_defs trim_def is_js_whitespace_def
        status_children_def flat_list_def first_meanings_def hello_response_def
        renderDefinition_def render_block_def enumerate_eq_zip number_to_string.simps
        digit_char_def js_def)
  from first numbered with_example without_example scenario show ?thesis
    by (intro conjI)
qed

theorem result_list_shows_first_entry_witness:
  "definition_state (initial_state\<lparr>definition_state := Some (Entries bat_response)\<rparr>)
     = Some (Entries (hd bat_response # tl bat_response))
   \<and> filter is_result_list
       (status_children (initial_state\<lparr>definition_state := Some (Entries bat_response)\<rparr>))
     = [FlatList
          [View S_definitionContainer
             [Text S_partOfSpeech (js ''noun''),
              View S_definitionBlock [Text S_definitionText (js ''1. a club'')]]]]"
proof -
  have stored: "definition_state (initial_state\<lparr>definition_state := Some (Entries bat_response)\<rparr>)
     = Some (Entries (hd bat_response # tl bat_response))"
    by (simp add: bat_response_def)
  have none: "example \<lparr>definition_text = js ''a club'', example = None\<rparr> = None
      \<or> example \<lparr>definition_text = js ''a club'', example = None\<rparr> = Some []"
    by simp
  note shown = result_list_shows_first_entry
    [of "initial_state\<lparr>definition_state := Some (Entries bat_response)\<rparr>"
        "hd bat_response" "tl bat_response"
        "\<lparr>partOfSpeech = js ''noun'',
          definitions = [\<lparr>definition_text = js ''a club'', example = None\<rparr>]\<rparr>"
        "\<lparr>definition_text = js ''a club'', example = None\<rparr>" 0]
  from shown stored have "filter is_result_list
       (status_children (initial_state\<lparr>definition_state := Some (Entries bat_response)\<rparr>))
     = [FlatList (map renderDefinition (meanings (hd bat_response)))]"
    by blast
  moreover from shown have "renderDefinition \<lparr>partOfSpeech = js ''noun'',
          definitions = [\<lparr>definition_text = js ''a club'', example = None\<rparr>]\<rparr>
     = View S_definitionContainer
         [Text S_partOfSpeech (js ''noun''),
          render_block 0 \<lparr>definition_text = js ''a club'', example = None\<rparr>]"
    by simp
  moreover from shown none have "render_block 0 \<lparr>definition_text = js ''a club'', example = None\<rparr>
     = View S_definitionBlock [Text S_definitionText (js ''1. a club'')]"
    by (simp add: number_to_string.simps digit_char_def js_def)
  ultimately show ?thesis
    using stored by (simp add: bat_response_def)
qed

text \<open>
  A response with two entries: the rendered list holds the first entry only, so what is
  read back from it is not the fields of the whole response, and one definition is
  rendered where the response has two.
\<close>

theorem later_entries_not_rendered:
  "status_children
     (after_events
        [ChangeText (js ''bat''),
         Submit (FetchResolves True (JsonResolves (Entries bat_response)))])
     = [flat_list (first_meanings (Entries bat_response))]
   \<and> extract_list (flat_list (first_meanings (Entries bat_response)))
       = Some (all_meanings (take 1 bat_response))
   \<and> all_meanings (take 1 bat_response) \<noteq> all_meanings bat_response
   \<and> rendered_definition_count (flat_list (first_meanings (Entries bat_response))) = 1
   \<and> definition_count (all_meanings bat_response) = 2"
  by (simp add: after_events_def initial_state_def handler_defs trim_def is_js_whitespace_def
      status_children_def flat_list_def first_meanings_def bat_response_def
      renderDefinition_def render_block_def enumerate_eq_zip number_to_string.simps
      digit_char_def js_def extract_list_def extract_meaning_def extract_block_def
      extract_definition_text_def is_digit_def all_meanings_def
      rendered_definition_count_def definition_count_def)

text \<open>
  C7 (amended). For every successful response whose body is an array of entries in which
  no example of the first entry is the empty string, the result list is the only thing
  rendered after the handler, reading the part-of-speech, definition and example strings
  back from it yields exactly the meanings of the first entry (none for an empty array),
  and the number of rendered definitions is the number of definitions of the first entry.
\<close>

theorem rendered_list_round_trip:
  assumes "trim (word s) \<noteq> []"
    and "net (api_url (word s)) = FetchResolves True (JsonResolves (Entries es))"
    and "\<forall>m\<in>set (all_meanings (take 1 es)). \<forall>d\<in>set (definitions m). example d \<noteq> Some []"
  shows "status_children (submit s net) = [flat_list (first_meanings (Entries es))]
    \<and> extract_list (flat_list (first_meanings (Entries es))) = Some (all_meanings (take 1 es))
    \<and> rendered_definition_count (flat_list (first_meanings (Entries es)))
        = definition_count (all_meanings (take 1 es))"
proof -
  from assms(1,2) have "status_children (submit s net) = [flat_list (first_meanings (Entries es))]"
    by (simp add: handler_defs status_children_def)
  moreover from assms(3)
  have "extract_list (flat_list (first_meanings (Entries es))) = Some (all_meanings (take 1 es))"
    unfolding flat_list_first_meanings by (intro extract_list_flat_list) blast
  moreover have "rendered_definition_count (flat_list (first_meanings (Entries es)))
        = definition_count (all_meanings (take 1 es))"
    unfolding flat_list_first_meanings by (rule rendered_definition_count_flat_list)
  ultimately show ?thesis
    by (intro conjI)
qed

theorem rendered_list_round_trip_witness:
  "trim (word (initial_state\<lparr>word := js ''hello''\<rparr>)) \<noteq> []
   \<and> extract_list (flat_list (first_meanings (Entries hello_response)))
       = Some (all_meanings hello_response)
   \<and> rendered_definition_count (flat_list (first_meanings (Entries hello_response))) = 1"
proof -
  have valid: "trim (word (initial_state\<lparr>word := js ''hello''\<rparr>)) \<noteq> []"
    by (simp add: trim_def is_js_whitespace_def js_def)
  have resp: "(\<lambda>u. FetchResolves True (JsonResolves (Entries hello_response)))
         (api_url (word (initial_state\<lparr>word := js ''hello''\<rparr>)))
       = FetchResolves True (JsonResolves (Entries hello_response))"
    by simp
  have examples: "\<forall>m\<in>set (all_meanings (take 1 hello_response)).
      \<forall>d\<in>set (definitions m). example d \<noteq> Some []"
    by (simp add: all_meanings_def hello_response_def js_def)
  have first: "all_meanings (take 1 hello_response) = all_meanings hello_response"
    by (simp add: hello_response_def)
  have count: "definition_count (all_meanings hello_response) = 1"
    by (simp add: definition_count_def all_meanings_def hello_response_def)
  from rendered_list_round_trip [OF valid resp examples] valid first count
  show ?thesis by simp
qed

text \<open>
  C10. Rendering has no failing step on an empty result: for an empty array of entries the
  first-entry access \<open>definition[0]?.meanings\<close> yields no data and the list is rendered
  with no items, and a meaning whose list of definitions is empty is rendered as its
  part-of-speech header alone.
\<close>

theorem rendering_empty_data:
  "first_meanings (Entries []) = None
   \<and> flat_list (first_meanings (Entries [])) = FlatList []
   \<and> DictionaryApp \<lparr>word = w, definition_state = Some (Entries []), loading = False, error = []\<rparr>
       = SafeAreaView S_container
           [View S_innerContainer
              [Text S_title (js ''Dictionary''),
               TextInput w,
               TouchableOpacity False [Text S_buttonText (js ''Search'')],
               FlatList []]]
   \<and> renderDefinition \<lparr>partOfSpeech = p, definitions = []\<rparr>
       = View S_definitionContainer [Text S_partOfSpeech p]"
  by (simp add: first_meanings_def flat_list_def DictionaryApp_def status_children_def
      renderDefinition_def enumerate_eq_zip)

end
